theory Spec2Isabelle
  imports Main
begin

section \<open>The real-time messaging core of backend/server.js\<close>

text \<open>
  The chat core is the block \<^verbatim>\<open>io.on("connection", (socket) => { ... })\<close> of
  \<^verbatim>\<open>backend/server.js\<close> (lines 69 to 86) together with the \<^verbatim>\<open>Message\<close> model
  (lines 43 to 49). The server state is what those lines read and write: the
  connected sockets, the rooms every socket is in, and the \<^verbatim>\<open>Message\<close>
  collection. Each handler is one atomic step on that state; the interleaving
  of two handlers at an \<^verbatim>\<open>await\<close> is not part of the model.
\<close>

subsection \<open>Data\<close>

type_synonym sid = string
type_synonym room = string

text \<open>
  A document of the \<^verbatim>\<open>Message\<close> collection: the five fields of the schema and the
  \<^verbatim>\<open>_id\<close> that the driver gives every new document. The timestamp is a
  \<^verbatim>\<open>Date\<close>, milliseconds since the epoch.
\<close>

record message =
  msg_id :: nat
  msg_from :: string
  msg_to :: string
  msg_text :: string
  msg_timestamp :: int
  msg_read :: bool

datatype error = ValidationError | StorageError

text \<open>
  What an \<^verbatim>\<open>emit\<close> carries after the event name: a saved document, or an object
  literal with string fields (the keys in the order of the literal).
\<close>

datatype payload = Doc message | Obj "(string \<times> string) list"

type_synonym delivery = "sid \<times> string \<times> payload list"

text \<open>
  What a handler takes from its environment: the clock read by \<^verbatim>\<open>new Date()\<close>,
  the \<^verbatim>\<open>_id\<close> drawn for a new document, whether the database answers, and
  what the Node runtime does with a promise rejection that nothing handles: it
  prints the error and, from Node 15 on, ends the process (\<open>exits\<close>); before
  Node 15 it prints a warning and goes on.
\<close>

record env =
  now :: int
  oid :: nat
  db_up :: bool
  exits :: bool

text \<open>
  The server: the connected sockets, the rooms of every socket, the \<^verbatim>\<open>Message\<close>
  collection, and the errors the runtime has printed on its error output.
\<close>

record server =
  conns :: "sid list"
  rooms :: "sid \<Rightarrow> room set"
  messages :: "message list"
  stderr :: "error list"

text \<open>
  The events of a socket. The payloads are the fields the handlers destructure:
  \<^verbatim>\<open>join(userId)\<close>, \<^verbatim>\<open>typing({to})\<close>, \<^verbatim>\<open>message({from, to, text})\<close> and
  \<^verbatim>\<open>read({from, to})\<close>; \<open>Connect\<close> and \<open>Disconnect\<close> are the transport's.
\<close>

datatype event =
    Connect
  | Join string
  | Typing string
  | Message string string string
  | Read string string
  | Disconnect

text \<open>
  How a step ends: the handler ran to its end, its promise was rejected with an
  error, or no handler ran at all.
\<close>

datatype outcome = Done | Rejected error | Ignored

record result =
  outc :: outcome
  srv :: server
  sent :: "delivery list"

subsection \<open>Rooms and delivery\<close>

text \<open>
  \<^verbatim>\<open>io.to(r).emit(ev, ...args)\<close>: every connected socket that is in room \<open>r\<close> gets
  the event once, the emitting socket included; a room with no socket gives no
  delivery and no error.
\<close>

definition members :: "server \<Rightarrow> room \<Rightarrow> sid list" where
  "members s r = filter (\<lambda>c. r \<in> rooms s c) (conns s)"

definition emit :: "server \<Rightarrow> room \<Rightarrow> string \<Rightarrow> payload list \<Rightarrow> delivery list" where
  "emit s r ev args = map (\<lambda>c. (c, ev, args)) (members s r)"

subsection \<open>The Message collection\<close>

text \<open>
  Line 77: \<^verbatim>\<open>new Message({ from, to, text, timestamp: new Date(), read: false })\<close>.
  The schema declares no validator, so every triple of strings is accepted.
\<close>

definition new_Message :: "env \<Rightarrow> string \<Rightarrow> string \<Rightarrow> string \<Rightarrow> message" where
  "new_Message e f t x =
     \<lparr>msg_id = oid e, msg_from = f, msg_to = t, msg_text = x,
      msg_timestamp = now e, msg_read = False\<rparr>"

text \<open>Line 78: \<^verbatim>\<open>await message.save()\<close> inserts the document or rejects.\<close>

definition doc_save :: "env \<Rightarrow> message \<Rightarrow> message list \<Rightarrow> error + message list" where
  "doc_save e m store = (if db_up e then Inr (store @ [m]) else Inl StorageError)"

text \<open>
  Lines 77 and 78 together are the store's \<^verbatim>\<open>save(sender, recipient, text)\<close>,
  here on three strings.
\<close>

definition save ::
  "env \<Rightarrow> string \<Rightarrow> string \<Rightarrow> string \<Rightarrow> message list \<Rightarrow> error + message \<times> message list" where
  "save e f t x store =
     (case doc_save e (new_Message e f t x) store of
        Inl err \<Rightarrow> Inl err
      | Inr store' \<Rightarrow> Inr (new_Message e f t x, store'))"

text \<open>
  A field of a payload as a client can send it: a string, or a plain object. The
  schema types \<^verbatim>\<open>from\<close>, \<^verbatim>\<open>to\<close> and \<^verbatim>\<open>text\<close> as \<^verbatim>\<open>String\<close> (lines 44 to 46), and
  mongoose casts a field to that type when the document is built: a string is
  kept as it is, a plain object cannot be cast. The document keeps a failed cast
  and \<^verbatim>\<open>save()\<close> rejects with it as a \<open>ValidationError\<close>, before anything is
  written. The schema has no other validator.
\<close>

datatype jsval = JString string | JObject "(string \<times> string) list"

fun cast_String :: "jsval \<Rightarrow> string option" where
  "cast_String (JString v) = Some v"
| "cast_String (JObject kvs) = None"

text \<open>Lines 77 and 78 on any three field values.\<close>

definition save_fields ::
  "env \<Rightarrow> jsval \<Rightarrow> jsval \<Rightarrow> jsval \<Rightarrow> message list \<Rightarrow> error + message \<times> message list" where
  "save_fields e f t x store =
     (case cast_String f of
        None \<Rightarrow> Inl ValidationError
      | Some f' \<Rightarrow>
          (case cast_String t of
             None \<Rightarrow> Inl ValidationError
           | Some t' \<Rightarrow>
               (case cast_String x of
                  None \<Rightarrow> Inl ValidationError
                | Some x' \<Rightarrow> save e f' t' x' store)))"

text \<open>
  Line 83: \<^verbatim>\<open>Message.updateMany({ from, to, read: false }, { read: true })\<close>, the
  store's \<^verbatim>\<open>markRead(sender, recipient)\<close>. It answers with the number of
  documents it modified.
\<close>

definition matches :: "string \<Rightarrow> string \<Rightarrow> message \<Rightarrow> bool" where
  "matches f t m = (msg_from m = f \<and> msg_to m = t \<and> msg_read m = False)"

definition set_read :: "string \<Rightarrow> string \<Rightarrow> message \<Rightarrow> message" where
  "set_read f t m = (if matches f t m then m\<lparr>msg_read := True\<rparr> else m)"

definition updateMany ::
  "env \<Rightarrow> string \<Rightarrow> string \<Rightarrow> message list \<Rightarrow> error + nat \<times> message list" where
  "updateMany e f t store =
     (if db_up e
      then Inr (length (filter (matches f t) store), map (set_read f t) store)
      else Inl StorageError)"

subsection \<open>The handlers\<close>

text \<open>Line 70: \<^verbatim>\<open>socket.on("join", (userId) => socket.join(userId))\<close>.\<close>

definition on_join :: "sid \<Rightarrow> string \<Rightarrow> server \<Rightarrow> result" where
  "on_join c u s =
     \<lparr>outc = Done, srv = s\<lparr>rooms := (rooms s)(c := insert u (rooms s c))\<rparr>, sent = []\<rparr>"

text \<open>Lines 72 to 74: \<^verbatim>\<open>io.to(to).emit("typing")\<close>, an event with no argument.\<close>

definition on_typing :: "string \<Rightarrow> server \<Rightarrow> result" where
  "on_typing t s = \<lparr>outc = Done, srv = s, sent = emit s t ''typing'' []\<rparr>"

text \<open>
  The two \<^verbatim>\<open>async\<close> handlers have no \<^verbatim>\<open>try\<close> and the file registers no listener
  for unhandled rejections, so a rejected \<^verbatim>\<open>await\<close> is an unhandled rejection:
  the runtime prints the error, and if it ends the process every socket is
  dropped. The collection is in the database and stays.
\<close>

definition unhandled :: "env \<Rightarrow> error \<Rightarrow> server \<Rightarrow> server" where
  "unhandled e err s =
     (if exits e
      then s\<lparr>conns := [], rooms := (\<lambda>c. {}), stderr := stderr s @ [err]\<rparr>
      else s\<lparr>stderr := stderr s @ [err]\<rparr>)"

text \<open>
  Lines 76 to 80. A rejected \<^verbatim>\<open>save\<close> leaves the \<^verbatim>\<open>async\<close> handler at the
  \<^verbatim>\<open>await\<close>: line 79 is not reached and nothing catches the error.
\<close>

definition on_message :: "env \<Rightarrow> string \<Rightarrow> string \<Rightarrow> string \<Rightarrow> server \<Rightarrow> result" where
  "on_message e f t x s =
     (case save e f t x (messages s) of
        Inl err \<Rightarrow> \<lparr>outc = Rejected err, srv = unhandled e err s, sent = []\<rparr>
      | Inr (m, store') \<Rightarrow>
          \<lparr>outc = Done, srv = s\<lparr>messages := store'\<rparr>,
           sent = emit s t ''message'' [Doc m]\<rparr>)"

text \<open>Lines 82 to 85. The count that \<^verbatim>\<open>updateMany\<close> answers is not used.\<close>

definition on_read :: "env \<Rightarrow> string \<Rightarrow> string \<Rightarrow> server \<Rightarrow> result" where
  "on_read e f t s =
     (case updateMany e f t (messages s) of
        Inl err \<Rightarrow> \<lparr>outc = Rejected err, srv = unhandled e err s, sent = []\<rparr>
      | Inr (n, store') \<Rightarrow>
          \<lparr>outc = Done, srv = s\<lparr>messages := store'\<rparr>,
           sent = emit s f ''read-receipt'' [Obj [(''from'', f), (''to'', t)]]\<rparr>)"

text \<open>
  The transport, socket.io: a new socket is in the room named by its own id; a
  socket that disconnects leaves every room. The file registers no handler for
  \<^verbatim>\<open>disconnect\<close>.
\<close>

definition on_connect :: "sid \<Rightarrow> server \<Rightarrow> result" where
  "on_connect c s =
     \<lparr>outc = Done, srv = s\<lparr>conns := conns s @ [c], rooms := (rooms s)(c := {c})\<rparr>,
      sent = []\<rparr>"

definition on_disconnect :: "sid \<Rightarrow> server \<Rightarrow> result" where
  "on_disconnect c s =
     \<lparr>outc = Done,
      srv = s\<lparr>conns := removeAll c (conns s), rooms := (rooms s)(c := {})\<rparr>,
      sent = []\<rparr>"

definition ignored :: "server \<Rightarrow> result" where
  "ignored s = \<lparr>outc = Ignored, srv = s, sent = []\<rparr>"

text \<open>
  The four handlers are registered in the connection callback, at once and
  without a condition, so a connected socket has all of them from its first
  event on. None of them reads anything of the socket but \<^verbatim>\<open>join\<close>.
\<close>

fun dispatch :: "env \<Rightarrow> sid \<Rightarrow> event \<Rightarrow> server \<Rightarrow> result" where
  "dispatch e c Connect s = ignored s"
| "dispatch e c (Join u) s = on_join c u s"
| "dispatch e c (Typing t) s = on_typing t s"
| "dispatch e c (Message f t x) s = on_message e f t x s"
| "dispatch e c (Read f t) s = on_read e f t s"
| "dispatch e c Disconnect s = on_disconnect c s"

definition handle :: "env \<Rightarrow> sid \<Rightarrow> event \<Rightarrow> server \<Rightarrow> result" where
  "handle e c ev s =
     (if ev = Connect
      then (if c \<in> set (conns s) then ignored s else on_connect c s)
      else (if c \<in> set (conns s) then dispatch e c ev s else ignored s))"

text \<open>A run of the server: the events in the order they are processed.\<close>

fun run :: "server \<Rightarrow> (env \<times> sid \<times> event) list \<Rightarrow> server" where
  "run s [] = s"
| "run s ((e, c, ev) # rest) = run (srv (handle e c ev s)) rest"

definition init :: server where
  "init = \<lparr>conns = [], rooms = (\<lambda>c. {}), messages = [], stderr = []\<rparr>"

fun is_chat :: "event \<Rightarrow> bool" where
  "is_chat (Typing t) = True"
| "is_chat (Message f t x) = True"
| "is_chat (Read f t) = True"
| "is_chat ev = False"

text \<open>
  The states of a connection: \<open>unjoined\<close> is connected with no \<^verbatim>\<open>join\<close> processed
  (the socket is in its own room only), \<open>joined_as\<close> is connected and in the room
  of a user.
\<close>

definition unjoined :: "server \<Rightarrow> sid \<Rightarrow> bool" where
  "unjoined s c = (c \<in> set (conns s) \<and> rooms s c = {c})"

definition joined_as :: "server \<Rightarrow> sid \<Rightarrow> string \<Rightarrow> bool" where
  "joined_as s c u = (c \<in> set (conns s) \<and> u \<in> rooms s c)"

text \<open>
  Example environments (a clock reading with the database up, with it down on a
  runtime that ends the process, and with it down on one that goes on) and
  example states, each reached by a run from \<open>init\<close>.
\<close>

definition env0 :: env where
  "env0 = \<lparr>now = 1000, oid = 7, db_up = True, exits = True\<rparr>"

definition env_down :: env where
  "env_down = \<lparr>now = 1000, oid = 7, db_up = False, exits = True\<rparr>"

definition env_warn :: env where
  "env_warn = \<lparr>now = 1000, oid = 7, db_up = False, exits = False\<rparr>"

definition alice_bob :: server where
  "alice_bob =
     run init [(env0, ''c1'', Connect), (env0, ''c1'', Join ''alice''),
               (env0, ''c2'', Connect), (env0, ''c2'', Join ''bob'')]"

definition chatting :: server where
  "chatting =
     run init [(env0, ''c1'', Connect), (env0, ''c1'', Join ''alice''),
               (env0, ''c2'', Connect), (env0, ''c2'', Join ''bob''),
               (env0, ''c1'', Message ''alice'' ''bob'' ''hi'')]"


definition rebound :: server where
  "rebound =
     run init [(env0, ''c1'', Connect), (env0, ''c1'', Join ''alice''),
               (env0, ''c1'', Join ''bob'')]"

definition two_devices :: server where
  "two_devices =
     run init [(env0, ''c1'', Connect), (env0, ''c1'', Join ''bob''),
               (env0, ''c2'', Connect), (env0, ''c2'', Join ''bob''),
               (env0, ''c3'', Connect), (env0, ''c3'', Join ''alice'')]"

definition half_joined :: server where
  "half_joined =
     run init [(env0, ''c1'', Connect), (env0, ''c1'', Join ''alice''),
               (env0, ''c2'', Connect)]"

definition inbox :: "message list" where
  "inbox =
     [\<lparr>msg_id = 1, msg_from = ''alice'', msg_to = ''bob'', msg_text = ''hi'',
       msg_timestamp = 10, msg_read = False\<rparr>,
      \<lparr>msg_id = 2, msg_from = ''bob'', msg_to = ''alice'', msg_text = ''yo'',
       msg_timestamp = 20, msg_read = False\<rparr>]"

definition inbox_read :: "message list" where
  "inbox_read =
     [\<lparr>msg_id = 1, msg_from = ''alice'', msg_to = ''bob'', msg_text = ''hi'',
       msg_timestamp = 10, msg_read = True\<rparr>,
      \<lparr>msg_id = 2, msg_from = ''bob'', msg_to = ''alice'', msg_text = ''yo'',
       msg_timestamp = 20, msg_read = False\<rparr>]"

section \<open>Auxiliary facts\<close>

lemmas handler_defs = handle_def on_connect_def on_join_def on_typing_def on_message_def
  on_read_def on_disconnect_def ignored_def emit_def members_def save_def doc_save_def
  new_Message_def updateMany_def matches_def set_read_def unhandled_def

lemma alice_bob_conns: "conns alice_bob = [''c1'', ''c2'']"
  by (simp add: alice_bob_def init_def handler_defs)

lemma alice_bob_rooms:
  "rooms alice_bob = (\<lambda>c. {})(''c1'' := {''alice'', ''c1''}, ''c2'' := {''bob'', ''c2''})"
  by (simp add: alice_bob_def init_def handler_defs)

lemma alice_bob_messages: "messages alice_bob = []"
  by (simp add: alice_bob_def init_def handler_defs)




lemma two_devices_conns: "conns two_devices = [''c1'', ''c2'', ''c3'']"
  by (simp add: two_devices_def init_def handler_defs)

lemma two_devices_rooms:
  "rooms two_devices =
     (\<lambda>c. {})(''c1'' := {''bob'', ''c1''}, ''c2'' := {''bob'', ''c2''},
              ''c3'' := {''alice'', ''c3''})"
  by (simp add: two_devices_def init_def handler_defs)

lemma half_joined_conns: "conns half_joined = [''c1'', ''c2'']"
  by (simp add: half_joined_def init_def handler_defs)

lemma half_joined_rooms:
  "rooms half_joined = (\<lambda>c. {})(''c1'' := {''alice'', ''c1''}, ''c2'' := {''c2''})"
  by (simp add: half_joined_def init_def handler_defs)

lemma chatting_conns: "conns chatting = [''c1'', ''c2'']"
  by (simp add: chatting_def init_def env0_def handler_defs)

lemma chatting_rooms:
  "rooms chatting = (\<lambda>c. {})(''c1'' := {''alice'', ''c1''}, ''c2'' := {''bob'', ''c2''})"
  by (simp add: chatting_def init_def env0_def handler_defs)

lemma chatting_messages:
  "messages chatting =
     [\<lparr>msg_id = 7, msg_from = ''alice'', msg_to = ''bob'', msg_text = ''hi'',
       msg_timestamp = 1000, msg_read = False\<rparr>]"
  by (simp add: chatting_def init_def env0_def handler_defs)

lemma save_fields_uncastable:
  "save_fields e (JObject kvs) v w store = Inl ValidationError"
  "save_fields e (JString f) (JObject kvs) w store = Inl ValidationError"
  "save_fields e (JString f) (JString t) (JObject kvs) store = Inl ValidationError"
  by (simp_all add: save_fields_def)

lemma is_chat_not_Connect: "is_chat ev \<Longrightarrow> ev \<noteq> Connect"
  by (cases ev) simp_all


lemma dispatch_chat_any_socket: "is_chat ev \<Longrightarrow> dispatch e c1 ev s = dispatch e c2 ev s"
  by (cases ev) simp_all

lemma set_read_not_matches: "\<not> matches f t (set_read f t m)"
  by (simp add: set_read_def matches_def)

lemma set_read_idem: "set_read f t (set_read f t m) = set_read f t m"
  by (simp add: set_read_def matches_def)

lemma filter_matches_after: "filter (matches f t) (map (set_read f t) store) = []"
  by (induction store) (simp_all add: set_read_not_matches)

lemma map_set_read_idem:
  "map (set_read f t) (map (set_read f t) store) = map (set_read f t) store"
  by (simp add: set_read_idem)

section \<open>The Message store\<close>

text \<open>
  C1, as the code has it. A \<^verbatim>\<open>save\<close> of three strings of which the sender equals
  the recipient, or the sender, the recipient or the text is empty, does not
  fail with \<open>ValidationError\<close>: with the database up it succeeds and appends
  exactly one record to the collection, with those three values, the read flag
  false and the clock reading as timestamp; with the database down it fails with
  \<open>StorageError\<close>.
\<close>

theorem save_accepts_invalid_strings:
  assumes "f = t \<or> f = [] \<or> t = [] \<or> x = []"
  shows "save_fields e (JString f) (JString t) (JString x) store \<noteq> Inl ValidationError \<and>
         (db_up e \<longrightarrow>
            save_fields e (JString f) (JString t) (JString x) store =
              Inr (\<lparr>msg_id = oid e, msg_from = f, msg_to = t, msg_text = x,
                    msg_timestamp = now e, msg_read = False\<rparr>,
                   store @ [\<lparr>msg_id = oid e, msg_from = f, msg_to = t, msg_text = x,
                             msg_timestamp = now e, msg_read = False\<rparr>])) \<and>
         (\<not> db_up e \<longrightarrow>
            save_fields e (JString f) (JString t) (JString x) store = Inl StorageError) \<and>
         save_fields e (JString f) (JString t) (JString x) store = save e f t x store"
  by (simp add: save_fields_def save_def doc_save_def new_Message_def)

theorem save_accepts_invalid_strings_witness:
  "(''alice'' = ''alice'' \<or> ''alice'' = [] \<or> [] = ([] :: string)) \<and> db_up env0 \<and>
   \<not> db_up env_down \<and>
   save_fields env0 (JString ''alice'') (JString ''alice'') (JString []) inbox =
     Inr (\<lparr>msg_id = 7, msg_from = ''alice'', msg_to = ''alice'', msg_text = [],
           msg_timestamp = 1000, msg_read = False\<rparr>,
          inbox @ [\<lparr>msg_id = 7, msg_from = ''alice'', msg_to = ''alice'', msg_text = [],
                    msg_timestamp = 1000, msg_read = False\<rparr>]) \<and>
   save_fields env_down (JString ''alice'') (JString ''alice'') (JString []) inbox =
     Inl StorageError"
proof -
  have h: "''alice'' = ''alice'' \<or> ''alice'' = [] \<or> ''alice'' = [] \<or> [] = ([] :: string)"
    by simp
  have up: "db_up env0" "oid env0 = 7" "now env0 = 1000" by (simp_all add: env0_def)
  have down: "\<not> db_up env_down" by (simp add: env_down_def)
  note at_up = save_accepts_invalid_strings [OF h, of env0 inbox]
  note at_down = save_accepts_invalid_strings [OF h, of env_down inbox]
  show ?thesis using up down at_up at_down by simp
qed

text \<open>
  A \<^verbatim>\<open>save\<close> with the sender as recipient and an empty text, on an empty
  collection: it succeeds and the record is in the collection.
\<close>

theorem save_self_empty_counterexample:
  "save env0 ''alice'' ''alice'' [] [] =
     Inr (\<lparr>msg_id = 7, msg_from = ''alice'', msg_to = ''alice'', msg_text = [],
           msg_timestamp = 1000, msg_read = False\<rparr>,
          [\<lparr>msg_id = 7, msg_from = ''alice'', msg_to = ''alice'', msg_text = [],
            msg_timestamp = 1000, msg_read = False\<rparr>])"
  by (simp add: save_def doc_save_def new_Message_def env0_def)

text \<open>
  C9. For a sender and a recipient that are distinct and not empty, and with the
  database up, \<^verbatim>\<open>save\<close> returns the stored message: its read flag is false and
  its timestamp is the clock reading of the call, taken from the environment and
  not from the arguments, hence not before the call.
\<close>

theorem save_unread_with_server_time:
  assumes "f \<noteq> t" and "f \<noteq> []" and "t \<noteq> []" and "db_up e"
  shows "\<exists>m store'.
           save e f t x store = Inr (m, store') \<and> store' = store @ [m] \<and>
           msg_read m = False \<and> msg_timestamp m = now e \<and> now e \<le> msg_timestamp m \<and>
           msg_from m = f \<and> msg_to m = t \<and> msg_text m = x"
  using assms by (simp add: save_def doc_save_def new_Message_def)

theorem save_unread_with_server_time_witness:
  "''alice'' \<noteq> ''bob'' \<and> ''alice'' \<noteq> [] \<and> ''bob'' \<noteq> [] \<and> db_up env0 \<and>
   (\<exists>m store'.
      save env0 ''alice'' ''bob'' ''hi'' [] = Inr (m, store') \<and> store' = [m] \<and>
      msg_read m = False \<and> msg_timestamp m = 1000 \<and>
      msg_from m = ''alice'' \<and> msg_to m = ''bob'' \<and> msg_text m = ''hi'')"
proof -
  have h: "''alice'' \<noteq> ''bob''" "''alice'' \<noteq> []" "''bob'' \<noteq> []" "db_up env0"
    by (simp_all add: env0_def)
  have t: "now env0 = 1000" by (simp add: env0_def)
  show ?thesis
    using h t save_unread_with_server_time [OF h, of "''hi''" "[]"] by auto
qed

text \<open>
  C6, as the code has it. With the database up, \<^verbatim>\<open>markRead(A, B)\<close> (the
  \<^verbatim>\<open>updateMany\<close> of line 83) returns the number of unread messages from A to B,
  sets the read flag of exactly those and leaves every other record as it was;
  afterwards every message from A to B is read. When A and B differ, every
  message from B to A is unchanged. A second \<^verbatim>\<open>markRead(A, B)\<close> right after
  returns 0 and changes nothing.
\<close>

theorem markRead_flips_exact_pair:
  assumes "db_up e" and "db_up e'"
  shows "\<exists>n store'.
           updateMany e A B store = Inr (n, store') \<and>
           length store' = length store \<and>
           n = length (filter (\<lambda>m. msg_from m = A \<and> msg_to m = B \<and> \<not> msg_read m) store) \<and>
           (\<forall>i<length store.
              store' ! i =
                (if msg_from (store ! i) = A \<and> msg_to (store ! i) = B \<and> \<not> msg_read (store ! i)
                 then (store ! i)\<lparr>msg_read := True\<rparr> else store ! i)) \<and>
           (\<forall>i<length store.
              msg_from (store ! i) = A \<and> msg_to (store ! i) = B \<longrightarrow> msg_read (store' ! i)) \<and>
           (A \<noteq> B \<longrightarrow>
              (\<forall>i<length store.
                 msg_from (store ! i) = B \<and> msg_to (store ! i) = A \<longrightarrow> store' ! i = store ! i)) \<and>
           updateMany e' A B store' = Inr (0, store')"
proof -
  let ?store' = "map (set_read A B) store"
  let ?n = "length (filter (matches A B) store)"
  have first: "updateMany e A B store = Inr (?n, ?store')"
    using assms(1) by (simp add: updateMany_def)
  have cnt: "?n = length (filter (\<lambda>m. msg_from m = A \<and> msg_to m = B \<and> \<not> msg_read m) store)"
  proof -
    have "matches A B = (\<lambda>m. msg_from m = A \<and> msg_to m = B \<and> \<not> msg_read m)"
      by (rule ext) (simp add: matches_def)
    then show ?thesis by simp
  qed
  have pointwise: "\<forall>i<length store.
      ?store' ! i =
        (if msg_from (store ! i) = A \<and> msg_to (store ! i) = B \<and> \<not> msg_read (store ! i)
         then (store ! i)\<lparr>msg_read := True\<rparr> else store ! i)"
    by (simp add: set_read_def matches_def)
  have flipped: "\<forall>i<length store.
      msg_from (store ! i) = A \<and> msg_to (store ! i) = B \<longrightarrow> msg_read (?store' ! i)"
    by (simp add: set_read_def matches_def)
  have reverse: "A \<noteq> B \<longrightarrow>
      (\<forall>i<length store.
         msg_from (store ! i) = B \<and> msg_to (store ! i) = A \<longrightarrow> ?store' ! i = store ! i)"
    by (simp add: set_read_def matches_def)
  have again: "updateMany e' A B ?store' = Inr (0, ?store')"
    using assms(2)
    by (simp add: updateMany_def filter_matches_after map_set_read_idem del: map_map)
  show ?thesis
    using first cnt pointwise flipped reverse again
    by (intro exI [of _ ?n] exI [of _ ?store']) simp
qed

theorem markRead_flips_exact_pair_witness:
  "db_up env0 \<and> ''alice'' \<noteq> ''bob'' \<and>
   updateMany env0 ''alice'' ''bob'' inbox = Inr (1, inbox_read) \<and>
   updateMany env0 ''alice'' ''bob'' inbox_read = Inr (0, inbox_read)"
proof -
  have up: "db_up env0" by (simp add: env0_def)
  have len: "length inbox = 2" by (simp add: inbox_def)
  have i0: "inbox ! 0 =
      \<lparr>msg_id = 1, msg_from = ''alice'', msg_to = ''bob'', msg_text = ''hi'',
       msg_timestamp = 10, msg_read = False\<rparr>"
    by (simp add: inbox_def)
  have i1: "inbox ! 1 =
      \<lparr>msg_id = 2, msg_from = ''bob'', msg_to = ''alice'', msg_text = ''yo'',
       msg_timestamp = 20, msg_read = False\<rparr>"
    by (simp add: inbox_def)
  obtain n store' where
    r: "updateMany env0 ''alice'' ''bob'' inbox = Inr (n, store')" and
    l: "length store' = length inbox" and
    c: "n = length (filter (\<lambda>m. msg_from m = ''alice'' \<and> msg_to m = ''bob'' \<and> \<not> msg_read m)
                      inbox)" and
    p: "\<forall>i<length inbox.
          store' ! i =
            (if msg_from (inbox ! i) = ''alice'' \<and> msg_to (inbox ! i) = ''bob'' \<and>
                \<not> msg_read (inbox ! i)
             then (inbox ! i)\<lparr>msg_read := True\<rparr> else inbox ! i)" and
    a: "updateMany env0 ''alice'' ''bob'' store' = Inr (0, store')"
    using markRead_flips_exact_pair [OF up up, of "''alice''" "''bob''" inbox] by blast
  have n1: "n = 1" using c by (simp add: inbox_def)
  have s0: "store' ! 0 = inbox_read ! 0" using p len i0 by (simp add: inbox_read_def)
  have s1: "store' ! 1 = inbox_read ! 1" using p len i1 by (simp add: inbox_read_def)
  have "store' = inbox_read"
  proof (rule nth_equalityI)
    show "length store' = length inbox_read" using l len by (simp add: inbox_read_def)
  next
    fix i assume "i < length store'"
    then have "i = 0 \<or> i = 1" using l len by auto
    then show "store' ! i = inbox_read ! i" using s0 s1 by auto
  qed
  then show ?thesis using up r n1 a by simp
qed

text \<open>
  With A and B the same identity, the unread message from B to A is a message
  from A to B, and \<^verbatim>\<open>markRead(A, B)\<close> changes it.
\<close>

theorem markRead_self_pair_counterexample:
  "updateMany env0 ''alice'' ''alice''
     [\<lparr>msg_id = 7, msg_from = ''alice'', msg_to = ''alice'', msg_text = ''hi'',
       msg_timestamp = 1000, msg_read = False\<rparr>] =
   Inr (1, [\<lparr>msg_id = 7, msg_from = ''alice'', msg_to = ''alice'', msg_text = ''hi'',
             msg_timestamp = 1000, msg_read = True\<rparr>])"
  by (simp add: updateMany_def matches_def set_read_def env0_def)

section \<open>Delivery\<close>

text \<open>
  C8. A delivery to user \<open>u\<close> is \<^verbatim>\<open>io.to(u).emit\<close>: the sockets that get the event
  are exactly the connected sockets in room \<open>u\<close>, each with the event name and
  the payload; with no such socket the delivery is the empty list, and the
  handler still ends normally. For a \<^verbatim>\<open>message\<close> event with the database up, what
  is delivered to the room of the recipient is the saved document.
\<close>

theorem emit_reaches_every_member:
  "set (emit s u ev args) = {(c, ev, args) | c. c \<in> set (conns s) \<and> u \<in> rooms s c} \<and>
   (\<forall>c \<in> set (conns s). u \<in> rooms s c \<longrightarrow> (c, ev, args) \<in> set (emit s u ev args)) \<and>
   ((\<forall>c \<in> set (conns s). u \<notin> rooms s c) \<longrightarrow> emit s u ev args = []) \<and>
   (c \<in> set (conns s) \<and> db_up e \<longrightarrow>
      outc (handle e c (Message f u x) s) = Done \<and>
      sent (handle e c (Message f u x) s) = emit s u ''message'' [Doc (new_Message e f u x)])"
  by (auto simp add: emit_def members_def handle_def on_message_def save_def doc_save_def
        filter_empty_conv)

theorem emit_reaches_every_member_witness:
  "''c1'' \<in> set (conns two_devices) \<and> ''bob'' \<in> rooms two_devices ''c1'' \<and>
   ''c2'' \<in> set (conns two_devices) \<and> ''bob'' \<in> rooms two_devices ''c2'' \<and>
   members two_devices ''carol'' = [] \<and>
   ''c3'' \<in> set (conns two_devices) \<and> db_up env0 \<and>
   (''c1'', ''message'', [Doc (new_Message env0 ''alice'' ''bob'' ''hi'')])
      \<in> set (sent (handle env0 ''c3'' (Message ''alice'' ''bob'' ''hi'') two_devices)) \<and>
   (''c2'', ''message'', [Doc (new_Message env0 ''alice'' ''bob'' ''hi'')])
      \<in> set (sent (handle env0 ''c3'' (Message ''alice'' ''bob'' ''hi'') two_devices)) \<and>
   outc (handle env0 ''c3'' (Message ''alice'' ''carol'' ''hi'') two_devices) = Done \<and>
   sent (handle env0 ''c3'' (Message ''alice'' ''carol'' ''hi'') two_devices) = []"
proof -
  have c1: "''c1'' \<in> set (conns two_devices)" "''bob'' \<in> rooms two_devices ''c1''"
    by (simp_all add: two_devices_conns two_devices_rooms)
  have c2: "''c2'' \<in> set (conns two_devices)" "''bob'' \<in> rooms two_devices ''c2''"
    by (simp_all add: two_devices_conns two_devices_rooms)
  have c3: "''c3'' \<in> set (conns two_devices)" by (simp add: two_devices_conns)
  have nobody: "\<forall>c \<in> set (conns two_devices). ''carol'' \<notin> rooms two_devices c"
    by (simp add: two_devices_conns two_devices_rooms)
  have up: "db_up env0" by (simp add: env0_def)
  note to_bob = emit_reaches_every_member
    [of two_devices "''bob''" "''message''" "[Doc (new_Message env0 ''alice'' ''bob'' ''hi'')]"
        "''c3''" env0 "''alice''" "''hi''"]
  note to_carol = emit_reaches_every_member
    [of two_devices "''carol''" "''message''"
        "[Doc (new_Message env0 ''alice'' ''carol'' ''hi'')]" "''c3''" env0 "''alice''" "''hi''"]
  have b1: "(''c1'', ''message'', [Doc (new_Message env0 ''alice'' ''bob'' ''hi'')])
      \<in> set (sent (handle env0 ''c3'' (Message ''alice'' ''bob'' ''hi'') two_devices))"
    using to_bob c1 c3 up by simp
  have b2: "(''c2'', ''message'', [Doc (new_Message env0 ''alice'' ''bob'' ''hi'')])
      \<in> set (sent (handle env0 ''c3'' (Message ''alice'' ''bob'' ''hi'') two_devices))"
    using to_bob c2 c3 up by simp
  have d: "outc (handle env0 ''c3'' (Message ''alice'' ''carol'' ''hi'') two_devices) = Done"
    using to_carol c3 up by simp
  have e: "sent (handle env0 ''c3'' (Message ''alice'' ''carol'' ''hi'') two_devices) = []"
    using to_carol c3 up nobody by simp
  have empty: "members two_devices ''carol'' = []"
    by (simp add: members_def two_devices_conns two_devices_rooms)
  show ?thesis using c1 c2 c3 empty up b1 b2 d e by blast
qed

section \<open>The connection's handlers\<close>




text \<open>
  C3, as the code has it. A \<^verbatim>\<open>join(u)\<close> on a connected socket adds room \<open>u\<close> to the
  rooms of that socket and removes nothing: the socket stays in every room it
  was in, so after a second \<^verbatim>\<open>join\<close> with another user id it is in the rooms of
  both users. The rooms of the other sockets, the connected sockets and the
  collection are unchanged, and nothing is sent.
\<close>

theorem join_adds_room:
  assumes "c \<in> set (conns s)"
  shows "rooms (srv (handle e c (Join u) s)) c = insert u (rooms s c) \<and>
         (\<forall>c'. c' \<noteq> c \<longrightarrow> rooms (srv (handle e c (Join u) s)) c' = rooms s c') \<and>
         (\<forall>r. set (members (srv (handle e c (Join u) s)) r) =
                (if r = u then insert c (set (members s r)) else set (members s r))) \<and>
         conns (srv (handle e c (Join u) s)) = conns s \<and>
         messages (srv (handle e c (Join u) s)) = messages s \<and>
         stderr (srv (handle e c (Join u) s)) = stderr s \<and>
         sent (handle e c (Join u) s) = []"
  using assms by (auto simp add: handle_def on_join_def members_def)

theorem join_adds_room_witness:
  "''c1'' \<in> set (conns alice_bob) \<and>
   rooms alice_bob ''c1'' = {''alice'', ''c1''} \<and>
   rooms (srv (handle env0 ''c1'' (Join ''bob'') alice_bob)) ''c1'' =
     {''bob'', ''alice'', ''c1''} \<and>
   set (members (srv (handle env0 ''c1'' (Join ''bob'') alice_bob)) ''alice'') = {''c1''} \<and>
   set (members (srv (handle env0 ''c1'' (Join ''bob'') alice_bob)) ''bob'') = {''c1'', ''c2''}"
  using join_adds_room [of "''c1''" alice_bob env0 "''bob''"]
  by (simp add: alice_bob_conns alice_bob_rooms members_def)

text \<open>
  One socket joins as alice and then as bob: in the state reached it is a member
  of the room of alice and of the room of bob.
\<close>

theorem rejoin_keeps_old_room_counterexample:
  "members rebound ''alice'' = [''c1''] \<and> members rebound ''bob'' = [''c1'']"
  by (simp add: rebound_def init_def handler_defs)

text \<open>
  C4, as the code has it. When the \<^verbatim>\<open>save\<close> of a \<^verbatim>\<open>message\<close> event fails, the
  event is dropped: nothing is added to the collection and nothing is sent to
  any socket, the socket of the sender included. The error is not swallowed: the
  promise of the handler is rejected with it and, nothing handling the
  rejection, the runtime prints it. A runtime that ends the process on an
  unhandled rejection drops every socket; one that goes on leaves the sockets
  and their rooms as they were.
\<close>

theorem failed_save_drops_event:
  assumes "c \<in> set (conns s)" and "save e f t x (messages s) = Inl err"
  shows "outc (handle e c (Message f t x) s) = Rejected err \<and>
         sent (handle e c (Message f t x) s) = [] \<and>
         messages (srv (handle e c (Message f t x) s)) = messages s \<and>
         stderr (srv (handle e c (Message f t x) s)) = stderr s @ [err] \<and>
         (exits e \<longrightarrow>
            conns (srv (handle e c (Message f t x) s)) = [] \<and>
            rooms (srv (handle e c (Message f t x) s)) = (\<lambda>c'. {})) \<and>
         (\<not> exits e \<longrightarrow>
            conns (srv (handle e c (Message f t x) s)) = conns s \<and>
            rooms (srv (handle e c (Message f t x) s)) = rooms s)"
  using assms by (simp add: handle_def on_message_def unhandled_def)

theorem failed_save_drops_event_witness:
  "''c1'' \<in> set (conns alice_bob) \<and> exits env_down \<and> \<not> exits env_warn \<and>
   save env_down ''alice'' ''bob'' ''hi'' (messages alice_bob) = Inl StorageError \<and>
   save env_warn ''alice'' ''bob'' ''hi'' (messages alice_bob) = Inl StorageError \<and>
   outc (handle env_down ''c1'' (Message ''alice'' ''bob'' ''hi'') alice_bob) =
     Rejected StorageError \<and>
   sent (handle env_down ''c1'' (Message ''alice'' ''bob'' ''hi'') alice_bob) = [] \<and>
   messages (srv (handle env_down ''c1'' (Message ''alice'' ''bob'' ''hi'') alice_bob)) = [] \<and>
   stderr (srv (handle env_down ''c1'' (Message ''alice'' ''bob'' ''hi'') alice_bob)) =
     stderr alice_bob @ [StorageError] \<and>
   conns (srv (handle env_down ''c1'' (Message ''alice'' ''bob'' ''hi'') alice_bob)) = [] \<and>
   stderr (srv (handle env_warn ''c1'' (Message ''alice'' ''bob'' ''hi'') alice_bob)) =
     stderr alice_bob @ [StorageError] \<and>
   conns (srv (handle env_warn ''c1'' (Message ''alice'' ''bob'' ''hi'') alice_bob)) =
     [''c1'', ''c2'']"
proof -
  have h1: "''c1'' \<in> set (conns alice_bob)" by (simp add: alice_bob_conns)
  have x1: "exits env_down" by (simp add: env_down_def)
  have x2: "\<not> exits env_warn" by (simp add: env_warn_def)
  have h2: "save env_down ''alice'' ''bob'' ''hi'' (messages alice_bob) = Inl StorageError"
    by (simp add: save_def doc_save_def env_down_def)
  have h3: "save env_warn ''alice'' ''bob'' ''hi'' (messages alice_bob) = Inl StorageError"
    by (simp add: save_def doc_save_def env_warn_def)
  note down = failed_save_drops_event [OF h1 h2]
  note warn = failed_save_drops_event [OF h1 h3]
  show ?thesis
    using h1 x1 x2 h2 h3 down warn by (simp add: alice_bob_conns alice_bob_messages)
qed

text \<open>
  The socket of alice sends a message while the database is down: the \<^verbatim>\<open>save\<close>
  fails and no socket, hers included, is sent anything.
\<close>

theorem failed_save_counterexample:
  "''c1'' \<in> set (conns alice_bob) \<and>
   save env_down ''alice'' ''bob'' ''hi'' (messages alice_bob) = Inl StorageError \<and>
   sent (handle env_down ''c1'' (Message ''alice'' ''bob'' ''hi'') alice_bob) = []"
  by (simp add: alice_bob_conns alice_bob_messages env_down_def handler_defs)

text \<open>
  C5, as the code has it. A \<^verbatim>\<open>typing({to})\<close> event on a connected socket sends
  every connected socket in room \<open>to\<close> a \<^verbatim>\<open>typing\<close> event with no payload; the
  state, the collection included, is unchanged.
\<close>

theorem typing_emits_bare_event:
  assumes "c \<in> set (conns s)"
  shows "outc (handle e c (Typing t) s) = Done \<and>
         srv (handle e c (Typing t) s) = s \<and>
         sent (handle e c (Typing t) s) = map (\<lambda>c'. (c', ''typing'', [])) (members s t) \<and>
         set (members s t) = {c'. c' \<in> set (conns s) \<and> t \<in> rooms s c'}"
  using assms by (simp add: handle_def on_typing_def emit_def members_def)

theorem typing_emits_bare_event_witness:
  "''c1'' \<in> set (conns alice_bob) \<and>
   handle env0 ''c1'' (Typing ''bob'') alice_bob =
     \<lparr>outc = Done, srv = alice_bob, sent = [(''c2'', ''typing'', [])]\<rparr>"
proof -
  have h: "''c1'' \<in> set (conns alice_bob)" by (simp add: alice_bob_conns)
  have m: "members alice_bob ''bob'' = [''c2'']"
    by (simp add: members_def alice_bob_conns alice_bob_rooms)
  show ?thesis using h m typing_emits_bare_event [OF h, of env0 "''bob''"]
    by (simp add: result.equality)
qed

text \<open>
  The socket joined as alice signals typing to bob: the socket of bob gets the
  event with no argument, not with the object that names alice.
\<close>

theorem typing_payload_counterexample:
  "joined_as alice_bob ''c1'' ''alice'' \<and>
   sent (handle env0 ''c1'' (Typing ''bob'') alice_bob) = [(''c2'', ''typing'', [])] \<and>
   (''c2'', ''typing'', [Obj [(''from'', ''alice'')]])
     \<notin> set (sent (handle env0 ''c1'' (Typing ''bob'') alice_bob))"
  by (simp add: joined_as_def alice_bob_conns alice_bob_rooms handler_defs)

text \<open>
  C7, as the code has it. A \<^verbatim>\<open>read({from, to})\<close> event on a connected socket,
  whoever issues it, with the database up: \<^verbatim>\<open>markRead(from, to)\<close> changes only
  messages whose sender is \<open>from\<close> and whose recipient is \<open>to\<close>, and the handler
  then sends a \<^verbatim>\<open>read-receipt\<close> event with the payload \<^verbatim>\<open>{from, to}\<close> to exactly the
  connected sockets in room \<open>from\<close>, the sender of the messages marked. A socket
  that is not in that room gets nothing; the issuing socket gets the receipt if
  and only if it is in room \<open>from\<close>.
\<close>

theorem read_receipt_goes_to_sender_of_marked:
  assumes "c \<in> set (conns s)" and "db_up e"
  shows "outc (handle e c (Read f t) s) = Done \<and>
         updateMany e f t (messages s) =
           Inr (length (filter (matches f t) (messages s)),
                messages (srv (handle e c (Read f t) s))) \<and>
         (\<forall>i<length (messages s).
            messages (srv (handle e c (Read f t) s)) ! i \<noteq> messages s ! i \<longrightarrow>
              msg_from (messages s ! i) = f \<and> msg_to (messages s ! i) = t) \<and>
         sent (handle e c (Read f t) s) =
           map (\<lambda>c'. (c', ''read-receipt'', [Obj [(''from'', f), (''to'', t)]])) (members s f) \<and>
         set (members s f) = {c'. c' \<in> set (conns s) \<and> f \<in> rooms s c'} \<and>
         (\<forall>d \<in> set (sent (handle e c (Read f t) s)). f \<in> rooms s (fst d)) \<and>
         ((c, ''read-receipt'', [Obj [(''from'', f), (''to'', t)]])
            \<in> set (sent (handle e c (Read f t) s))) = (f \<in> rooms s c)"
proof -
  have h: "handle e c (Read f t) s =
      \<lparr>outc = Done, srv = s\<lparr>messages := map (set_read f t) (messages s)\<rparr>,
       sent = emit s f ''read-receipt'' [Obj [(''from'', f), (''to'', t)]]\<rparr>"
    using assms by (simp add: handle_def on_read_def updateMany_def)
  have marked: "\<forall>i<length (messages s).
      map (set_read f t) (messages s) ! i \<noteq> messages s ! i \<longrightarrow>
        msg_from (messages s ! i) = f \<and> msg_to (messages s ! i) = t"
    by (simp add: set_read_def matches_def)
  have upd: "updateMany e f t (messages s) =
      Inr (length (filter (matches f t) (messages s)), map (set_read f t) (messages s))"
    using assms(2) by (simp add: updateMany_def)
  have mem: "set (members s f) = {c'. c' \<in> set (conns s) \<and> f \<in> rooms s c'}"
    by (simp add: members_def)
  have own: "((c, ''read-receipt'', [Obj [(''from'', f), (''to'', t)]])
      \<in> set (emit s f ''read-receipt'' [Obj [(''from'', f), (''to'', t)]])) = (f \<in> rooms s c)"
    using assms(1) by (auto simp add: emit_def members_def)
  have all: "\<forall>d \<in> set (emit s f ''read-receipt'' [Obj [(''from'', f), (''to'', t)]]).
      f \<in> rooms s (fst d)"
    by (auto simp add: emit_def members_def)
  show ?thesis using marked upd mem own all by (simp add: h emit_def)
qed

theorem read_receipt_goes_to_sender_of_marked_witness:
  "''c2'' \<in> set (conns chatting) \<and> db_up env0 \<and>
   ''alice'' \<notin> rooms chatting ''c2'' \<and> ''alice'' \<in> rooms chatting ''c1'' \<and>
   sent (handle env0 ''c2'' (Read ''alice'' ''bob'') chatting) =
     [(''c1'', ''read-receipt'', [Obj [(''from'', ''alice''), (''to'', ''bob'')]])] \<and>
   (''c2'', ''read-receipt'', [Obj [(''from'', ''alice''), (''to'', ''bob'')]])
     \<notin> set (sent (handle env0 ''c2'' (Read ''alice'' ''bob'') chatting))"
proof -
  have h: "''c2'' \<in> set (conns chatting)" by (simp add: chatting_conns)
  have up: "db_up env0" by (simp add: env0_def)
  have r: "''alice'' \<notin> rooms chatting ''c2''" "''alice'' \<in> rooms chatting ''c1''"
    by (simp_all add: chatting_rooms)
  have m: "members chatting ''alice'' = [''c1'']"
    by (simp add: members_def chatting_conns chatting_rooms)
  note at = read_receipt_goes_to_sender_of_marked [OF h up, of "''alice''" "''bob''"]
  have s1: "sent (handle env0 ''c2'' (Read ''alice'' ''bob'') chatting) =
     [(''c1'', ''read-receipt'', [Obj [(''from'', ''alice''), (''to'', ''bob'')]])]"
    using at m by simp
  have s2: "(''c2'', ''read-receipt'', [Obj [(''from'', ''alice''), (''to'', ''bob'')]])
     \<notin> set (sent (handle env0 ''c2'' (Read ''alice'' ''bob'') chatting))"
    using at r by blast
  show ?thesis using h up r s1 s2 by blast
qed

text \<open>
  Alice has sent bob a message. The socket of bob, the reader, issues the
  \<^verbatim>\<open>read\<close> event for it: the message of alice is marked read, the receipt goes to
  the socket of alice, who sent the message, and the socket of bob, which issued
  the event, gets nothing.
\<close>

theorem read_receipt_skips_reader_counterexample:
  "joined_as chatting ''c2'' ''bob'' \<and> joined_as chatting ''c1'' ''alice'' \<and>
   messages chatting =
     [\<lparr>msg_id = 7, msg_from = ''alice'', msg_to = ''bob'', msg_text = ''hi'',
       msg_timestamp = 1000, msg_read = False\<rparr>] \<and>
   messages (srv (handle env0 ''c2'' (Read ''alice'' ''bob'') chatting)) =
     [\<lparr>msg_id = 7, msg_from = ''alice'', msg_to = ''bob'', msg_text = ''hi'',
       msg_timestamp = 1000, msg_read = True\<rparr>] \<and>
   sent (handle env0 ''c2'' (Read ''alice'' ''bob'') chatting) =
     [(''c1'', ''read-receipt'', [Obj [(''from'', ''alice''), (''to'', ''bob'')]])]"
  by (simp add: joined_as_def chatting_conns chatting_rooms chatting_messages env0_def
        handler_defs)

text \<open>
  C10. On any two connected sockets, whatever each has joined, the same
  \<^verbatim>\<open>typing\<close>, \<^verbatim>\<open>message\<close> or \<^verbatim>\<open>read\<close> event gives the same result: the same
  outcome, the same collection and the same deliveries. The handlers do not read
  the identity of the socket, so any socket acts for any pair of identities.
\<close>

theorem handlers_ignore_identity:
  assumes "c1 \<in> set (conns s)" and "c2 \<in> set (conns s)" and "is_chat ev"
  shows "handle e c1 ev s = handle e c2 ev s \<and>
         messages (srv (handle e c1 ev s)) = messages (srv (handle e c2 ev s)) \<and>
         sent (handle e c1 ev s) = sent (handle e c2 ev s)"
proof -
  have "ev \<noteq> Connect" using assms(3) by (rule is_chat_not_Connect)
  then have "handle e c1 ev s = dispatch e c1 ev s" "handle e c2 ev s = dispatch e c2 ev s"
    using assms(1,2) by (simp_all add: handle_def)
  then show ?thesis using dispatch_chat_any_socket [OF assms(3), of e c1 s c2] by simp
qed

theorem handlers_ignore_identity_witness:
  "joined_as half_joined ''c1'' ''alice'' \<and> unjoined half_joined ''c2'' \<and>
   is_chat (Message ''carol'' ''alice'' ''hi'') \<and>
   handle env0 ''c1'' (Message ''carol'' ''alice'' ''hi'') half_joined =
     handle env0 ''c2'' (Message ''carol'' ''alice'' ''hi'') half_joined"
proof -
  have j: "joined_as half_joined ''c1'' ''alice''"
    by (simp add: joined_as_def half_joined_conns half_joined_rooms)
  have u: "unjoined half_joined ''c2''"
    by (simp add: unjoined_def half_joined_conns half_joined_rooms)
  have c: "''c1'' \<in> set (conns half_joined)" "''c2'' \<in> set (conns half_joined)"
    by (simp_all add: half_joined_conns)
  have k: "is_chat (Message ''carol'' ''alice'' ''hi'')" by simp
  show ?thesis using j u k handlers_ignore_identity [OF c k, of env0] by simp
qed

end
